theory Spec2Isabelle
  imports Main "HOL-Library.Sublist" "HOL-Library.Char_ord" "HOL-Library.List_Lexorder"
begin

section \<open>Text primitives of the Python runtime\<close>

text \<open>
  Python strings are modelled as \<^typ>\<open>string\<close>. The case functions below act on the
  ASCII letters, as \<^verbatim>\<open>str.lower\<close> and \<^verbatim>\<open>str.title\<close> do on ASCII text; any other
  character is left unchanged and counts as uncased. Every literal the program compares a
  lowercased string with is ASCII, so those comparisons come out the same for every input.
\<close>

definition is_upper :: "char \<Rightarrow> bool" where
  "is_upper c = (65 \<le> (of_char c :: nat) \<and> (of_char c :: nat) \<le> 90)"

definition is_lower :: "char \<Rightarrow> bool" where
  "is_lower c = (97 \<le> (of_char c :: nat) \<and> (of_char c :: nat) \<le> 122)"

definition is_cased :: "char \<Rightarrow> bool" where
  "is_cased c = (is_upper c \<or> is_lower c)"

definition is_digit :: "char \<Rightarrow> bool" where
  "is_digit c = (48 \<le> (of_char c :: nat) \<and> (of_char c :: nat) \<le> 57)"

definition is_ascii :: "char \<Rightarrow> bool" where
  "is_ascii c = ((of_char c :: nat) < 128)"

definition lower_char :: "char \<Rightarrow> char" where
  "lower_char c = (if is_upper c then char_of (of_char c + (32 :: nat)) else c)"

definition upper_char :: "char \<Rightarrow> char" where
  "upper_char c = (if is_lower c then char_of (of_char c - (32 :: nat)) else c)"

definition lower :: "string \<Rightarrow> string" where
  "lower s = map lower_char s"

text \<open>
  \<^verbatim>\<open>str.title\<close>: a character that follows a cased character is lowercased, any other
  character is uppercased.
\<close>

fun title_from :: "bool \<Rightarrow> string \<Rightarrow> string" where
  "title_from previous_is_cased [] = []"
| "title_from previous_is_cased (c # cs) =
     (if previous_is_cased then lower_char c else upper_char c) # title_from (is_cased c) cs"

definition title :: "string \<Rightarrow> string" where
  "title s = title_from False s"

text \<open>\<^verbatim>\<open>str.split(sep)\<close> for a separator of one character; the result is never empty.\<close>

fun split :: "char \<Rightarrow> string \<Rightarrow> string list" where
  "split sep [] = [[]]"
| "split sep (c # cs) =
     (if c = sep then [] # split sep cs
      else (case split sep cs of [] \<Rightarrow> [[c]] | w # ws \<Rightarrow> (c # w) # ws))"

text \<open>\<^verbatim>\<open>sep.join(parts)\<close>.\<close>

fun join :: "string \<Rightarrow> string list \<Rightarrow> string" where
  "join sep [] = []"
| "join sep [x] = x"
| "join sep (x # y # ys) = x @ sep @ join sep (y # ys)"

text \<open>\<^verbatim>\<open>sub in s\<close> on strings.\<close>

fun contains :: "string \<Rightarrow> string \<Rightarrow> bool" where
  "contains sub [] = (sub = [])"
| "contains sub (c # cs) = (if prefix sub (c # cs) then True else contains sub cs)"

text \<open>\<^verbatim>\<open>str(n)\<close> and \<^verbatim>\<open>int(s)\<close> for decimal numerals.\<close>

function str_nat :: "nat \<Rightarrow> string" where
  "str_nat n = (if n < 10 then [char_of (48 + n)] else str_nat (n div 10) @ [char_of (48 + n mod 10)])"
  by pat_completeness auto
termination
  by (relation "measure id") auto

declare str_nat.simps [simp del]

definition str_int :: "int \<Rightarrow> string" where
  "str_int i = (if i < 0 then CHR ''-'' # str_nat (nat (- i)) else str_nat (nat i))"

definition int_of_digits :: "string \<Rightarrow> int" where
  "int_of_digits ds = foldl (\<lambda>a d. 10 * a + int (of_char d - (48 :: nat))) 0 ds"

definition dq :: "string" where
  "dq = [CHR 0x22]"

definition newline :: "string" where
  "newline = [CHR 0x0A]"

section \<open>Data model\<close>

record ColumnInfo =
  name :: string
  data_type :: string
  is_nullable :: bool
  is_primary_key :: bool
  is_auto_increment :: bool
  max_length :: "int option"
  numeric_precision :: "int option"
  numeric_scale :: "int option"

record AttributeConfig =
  use_key :: bool
  use_required :: bool
  use_column :: bool
  use_maxlength :: bool
  use_table :: bool
  use_database_generated :: bool

datatype error =
    ConfigurationError string
  | AttributeError string
  | ValueError string
  | KeyError string
  | InterpolationError string
  | OSError string
  | DatabaseError string

section \<open>Casing transform and type mapper\<close>

definition to_pascal_case :: "string \<Rightarrow> string" where
  "to_pascal_case snake_str = concat (map title (split (CHR ''_'') snake_str))"

definition type_mapping :: "string \<rightharpoonup> string" where
  "type_mapping = map_of
    [(''bit'', ''bool''),
     (''tinyint'', ''byte''),
     (''smallint'', ''short''),
     (''int'', ''int''),
     (''bigint'', ''long''),
     (''decimal'', ''decimal''),
     (''float'', ''float''),
     (''double'', ''double''),
     (''datetime'', ''DateTime''),
     (''date'', ''DateTime''),
     (''timestamp'', ''DateTime''),
     (''time'', ''TimeSpan''),
     (''char'', ''string''),
     (''varchar'', ''string''),
     (''text'', ''string''),
     (''longtext'', ''string''),
     (''json'', ''string'')]"

definition get_csharp_type :: "ColumnInfo \<Rightarrow> string" where
  "get_csharp_type column =
     (let base_type = lower (data_type column) in
      if base_type = ''tinyint'' \<and> max_length column = Some 1
      then (if \<not> is_nullable column then ''bool'' else ''bool?'')
      else
        (let cs_type = (case type_mapping base_type of Some t \<Rightarrow> t | None \<Rightarrow> ''object'') in
         if is_nullable column \<and> cs_type \<noteq> ''string'' then cs_type @ ''?'' else cs_type))"

section \<open>Entity renderer\<close>

text \<open>
  \<^verbatim>\<open>generate_class\<close> collects the using statements in a set and sorts them. The three
  statements are distinct, so the set is the list of those added, sorted by code point.
\<close>

definition using_statements :: "AttributeConfig \<Rightarrow> string list" where
  "using_statements ac =
     sort ([''using System;'']
       @ (if use_key ac \<or> use_required ac \<or> use_maxlength ac
          then [''using System.ComponentModel.DataAnnotations;''] else [])
       @ (if use_column ac \<or> use_table ac \<or> use_database_generated ac
          then [''using System.ComponentModel.DataAnnotations.Schema;''] else []))"

text \<open>The attribute lines of one column, appended in the order of the loop body.\<close>

definition key_line :: "string" where
  "key_line = ''        [Key]''"

definition database_generated_line :: "string" where
  "database_generated_line = ''        [DatabaseGenerated(DatabaseGeneratedOption.Identity)]''"

definition column_line :: "ColumnInfo \<Rightarrow> string" where
  "column_line column = ''        [Column('' @ dq @ name column @ dq @ '')]''"

definition required_line :: "string" where
  "required_line = ''        [Required]''"

definition maxlength_line :: "int \<Rightarrow> string" where
  "maxlength_line n = ''        [MaxLength('' @ str_int n @ '')]''"

definition property_line :: "ColumnInfo \<Rightarrow> string" where
  "property_line column =
     ''        public '' @ get_csharp_type column @ '' '' @ to_pascal_case (name column)
       @ '' { get; set; }''"

definition attributes :: "AttributeConfig \<Rightarrow> ColumnInfo \<Rightarrow> string list" where
  "attributes ac column =
     (if is_primary_key column \<and> use_key ac then [key_line] else [])
     @ (if is_auto_increment column \<and> use_database_generated ac
        then [database_generated_line] else [])
     @ (if use_column ac then [column_line column] else [])
     @ (if \<not> is_nullable column \<and> data_type column \<noteq> ''string'' \<and> use_required ac
        then [required_line] else [])
     @ (case max_length column of
          None \<Rightarrow> []
        | Some n \<Rightarrow>
            if n \<noteq> 0 \<and> data_type column \<in> set [''varchar'', ''char''] \<and> use_maxlength ac
            then [maxlength_line n] else [])"

definition column_lines :: "AttributeConfig \<Rightarrow> ColumnInfo \<Rightarrow> string list" where
  "column_lines ac column = attributes ac column @ [property_line column, []]"

definition class_lines ::
  "AttributeConfig \<Rightarrow> string \<Rightarrow> string \<Rightarrow> ColumnInfo list \<Rightarrow> string list" where
  "class_lines ac namespace table_name columns =
     using_statements ac
     @ [[], ''namespace '' @ namespace, ''{'']
     @ (if use_table ac then [''    [Table('' @ dq @ table_name @ dq @ '')]''] else [])
     @ [''    public class '' @ to_pascal_case table_name, ''    {'']
     @ concat (map (column_lines ac) columns)
     @ [''    }'', ''}'']"

section \<open>Configuration\<close>

text \<open>
  A parsed configuration maps a section name to the options visible in that section, each
  with the raw text stored for it. Option names are stored in lower case. Reading and
  parsing the file is the library's work and is not modelled: the file is either absent or
  holds a configuration.
\<close>

type_synonym section_proxy = "string \<rightharpoonup> string"
type_synonym config = "string \<rightharpoonup> section_proxy"

text \<open>
  The parser is created with its default interpolation, so every value read is expanded:
  \<^verbatim>\<open>%%\<close> stands for a percent sign and \<^verbatim>\<open>%(name)s\<close> for the expanded value of the
  option \<^verbatim>\<open>name\<close> of the same section; any other use of \<^verbatim>\<open>%\<close>, a reference to a
  missing option and a nesting deeper than ten levels raise an interpolation error.
  \<^verbatim>\<open>match_key\<close> reads a reference after its opening \<^verbatim>\<open>%(\<close>: the name up to the first
  closing parenthesis, which must be followed by \<^verbatim>\<open>s\<close>, and the text after it.
\<close>

definition match_key :: "string \<Rightarrow> (string \<times> string) option" where
  "match_key s =
     (let key = takeWhile (\<lambda>c. c \<noteq> CHR '')'') s in
      case dropWhile (\<lambda>c. c \<noteq> CHR '')'') s of
        c # d # rest \<Rightarrow> if key \<noteq> [] \<and> d = CHR ''s'' then Some (key, rest) else None
      | _ \<Rightarrow> None)"

lemma match_key_shorter: "match_key s = Some (key, rest) \<Longrightarrow> length rest < length s"
proof -
  assume m: "match_key s = Some (key, rest)"
  then obtain c d where "dropWhile (\<lambda>c. c \<noteq> CHR '')'') s = c # d # rest"
    by (auto simp add: match_key_def Let_def split: list.splits if_splits)
  moreover have "length (dropWhile (\<lambda>c. c \<noteq> CHR '')'') s) \<le> length s"
    by (rule length_dropWhile_le)
  ultimately show ?thesis by simp
qed

function interpolate_some :: "nat \<Rightarrow> section_proxy \<Rightarrow> string \<Rightarrow> error + string" where
  "interpolate_some depth sec rest =
     (if depth > 10 then Inl (InterpolationError ''depth'')
      else
        (case rest of
           [] \<Rightarrow> Inr []
         | c # cs \<Rightarrow>
             if c \<noteq> CHR ''%''
             then (case interpolate_some depth sec cs of
                     Inl e \<Rightarrow> Inl e
                   | Inr text \<Rightarrow> Inr (c # text))
             else
               (case cs of
                  [] \<Rightarrow> Inl (InterpolationError ''syntax'')
                | d # ds \<Rightarrow>
                    if d = CHR ''%''
                    then (case interpolate_some depth sec ds of
                            Inl e \<Rightarrow> Inl e
                          | Inr text \<Rightarrow> Inr (CHR ''%'' # text))
                    else if d = CHR ''(''
                    then (case match_key ds of
                            None \<Rightarrow> Inl (InterpolationError ''syntax'')
                          | Some (key, after) \<Rightarrow>
                              (case sec (lower key) of
                                 None \<Rightarrow> Inl (InterpolationError (lower key))
                               | Some v \<Rightarrow>
                                   (case (if CHR ''%'' \<in> set v
                                          then interpolate_some (depth + 1) sec v
                                          else Inr v) of
                                      Inl e \<Rightarrow> Inl e
                                    | Inr value \<Rightarrow>
                                        (case interpolate_some depth sec after of
                                           Inl e \<Rightarrow> Inl e
                                         | Inr text \<Rightarrow> Inr (value @ text)))))
                    else Inl (InterpolationError ''syntax''))))"
  by pat_completeness auto
termination
  by (relation "measures [\<lambda>(depth, sec, rest). 11 - depth,
                          \<lambda>(depth, sec, rest). length rest]")
     (auto dest: match_key_shorter)

declare interpolate_some.simps [simp del]

definition interpolated :: "section_proxy \<Rightarrow> string \<Rightarrow> error + string" where
  "interpolated sec raw = interpolate_some 1 sec raw"

definition bind :: "error + 'a \<Rightarrow> ('a \<Rightarrow> error + 'b) \<Rightarrow> error + 'b" where
  "bind m f = (case m of Inl e \<Rightarrow> Inl e | Inr x \<Rightarrow> f x)"

definition convert_to_boolean :: "string \<Rightarrow> error + bool" where
  "convert_to_boolean v =
     (if lower v \<in> set [''1'', ''yes'', ''true'', ''on''] then Inr True
      else if lower v \<in> set [''0'', ''no'', ''false'', ''off''] then Inr False
      else Inl (ValueError (''Not a boolean: '' @ v)))"

text \<open>\<^verbatim>\<open>section.getboolean(option, fallback)\<close> and \<^verbatim>\<open>section.get(option, fallback)\<close>.\<close>

definition getboolean :: "section_proxy \<Rightarrow> string \<Rightarrow> bool \<Rightarrow> error + bool" where
  "getboolean sec option fallback =
     (case sec (lower option) of
        None \<Rightarrow> Inr fallback
      | Some v \<Rightarrow> bind (interpolated sec v) convert_to_boolean)"

definition get_option :: "section_proxy \<Rightarrow> string \<Rightarrow> string \<Rightarrow> error + string" where
  "get_option sec option fallback =
     (case sec (lower option) of None \<Rightarrow> Inr fallback | Some v \<Rightarrow> interpolated sec v)"

text \<open>\<^verbatim>\<open>config[section][option]\<close>, which raises \<^verbatim>\<open>KeyError\<close> when either is missing.\<close>

definition lookup :: "config \<Rightarrow> string \<Rightarrow> string \<Rightarrow> error + string" where
  "lookup cfg sec option =
     (case cfg sec of
        None \<Rightarrow> Inl (KeyError sec)
      | Some s \<Rightarrow>
          (case s (lower option) of
             None \<Rightarrow> Inl (KeyError option)
           | Some v \<Rightarrow> interpolated s v))"

text \<open>
  \<^verbatim>\<open>_load_attribute_config\<close>. Without an \<^verbatim>\<open>Attributes\<close> section the source takes a plain
  \<^verbatim>\<open>dict\<close>, which has no \<^verbatim>\<open>getboolean\<close>: the first call raises \<^verbatim>\<open>AttributeError\<close>.
\<close>

definition load_attribute_config :: "config \<Rightarrow> error + AttributeConfig" where
  "load_attribute_config cfg =
     (case cfg ''Attributes'' of
        None \<Rightarrow> Inl (AttributeError ''getboolean'')
      | Some attr_config \<Rightarrow>
          bind (getboolean attr_config ''use_key_attribute'' True) (\<lambda>k.
          bind (getboolean attr_config ''use_required_attribute'' True) (\<lambda>r.
          bind (getboolean attr_config ''use_column_attribute'' True) (\<lambda>c.
          bind (getboolean attr_config ''use_maxlength_attribute'' True) (\<lambda>m.
          bind (getboolean attr_config ''use_table_attribute'' True) (\<lambda>t.
          bind (getboolean attr_config ''use_databasegenerated_attribute'' True) (\<lambda>g.
          Inr \<lparr>use_key = k, use_required = r, use_column = c, use_maxlength = m,
               use_table = t, use_database_generated = g\<rparr>)))))))"

definition required_sections :: "string list" where
  "required_sections = [''Database'', ''Generator'']"

definition required_db_params :: "string list" where
  "required_db_params = [''host'', ''database'', ''user'', ''password'']"

definition required_gen_params :: "string list" where
  "required_gen_params = [''output_directory'', ''namespace'']"

text \<open>
  \<^verbatim>\<open>param not in config[section]\<close> for each parameter in turn; on a missing section the
  subscript raises \<^verbatim>\<open>KeyError\<close>.
\<close>

definition missing_param :: "config \<Rightarrow> string \<Rightarrow> string list \<Rightarrow> error + string option" where
  "missing_param cfg sec params =
     (case cfg sec of
        None \<Rightarrow> (if params = [] then Inr None else Inl (KeyError sec))
      | Some s \<Rightarrow> Inr (find (\<lambda>param. s (lower param) = None) params))"

definition load_configuration :: "string \<Rightarrow> config option \<Rightarrow> error + config" where
  "load_configuration config_file file =
     (case file of
        None \<Rightarrow> Inl (ConfigurationError (''Configuration file not found: '' @ config_file))
      | Some cfg \<Rightarrow>
          (case find (\<lambda>sec. cfg sec = None) required_sections of
             Some sec \<Rightarrow> Inl (ConfigurationError (''Missing required section: '' @ sec))
           | None \<Rightarrow>
               bind (missing_param cfg ''Database'' required_db_params) (\<lambda>db.
               case db of
                 Some param \<Rightarrow>
                   Inl (ConfigurationError (''Missing required database parameter: '' @ param))
               | None \<Rightarrow>
                   bind (missing_param cfg ''Generator'' required_gen_params) (\<lambda>gen.
                   case gen of
                     Some param \<Rightarrow>
                       Inl (ConfigurationError
                              (''Missing required generator parameter: '' @ param))
                   | None \<Rightarrow> Inr cfg))))"

section \<open>Schema reader\<close>

text \<open>
  One row of the column query, with the catalog's column names. The query itself runs in
  the database, which returns the rows in \<^verbatim>\<open>ORDINAL_POSITION\<close> order; the reader keeps
  the order of the rows it fetches.
\<close>

record catalog_row =
  COLUMN_NAME :: string
  DATA_TYPE :: string
  IS_NULLABLE :: string
  COLUMN_KEY :: string
  EXTRA :: string
  CHARACTER_MAXIMUM_LENGTH :: "int option"
  NUMERIC_PRECISION :: "int option"
  NUMERIC_SCALE :: "int option"
  COLUMN_TYPE :: string

text \<open>
  \<^verbatim>\<open>re.search(r'tinyint\((\d+)\)', s)\<close>: the digits of the leftmost place where
  \<^verbatim>\<open>tinyint(\<close>, one or more digits and \<^verbatim>\<open>)\<close> follow each other.
\<close>

definition match_width :: "string \<Rightarrow> string option" where
  "match_width s =
     (if prefix ''tinyint('' s
      then (let rest = drop 8 s; digits = takeWhile is_digit rest in
            case dropWhile is_digit rest of
              [] \<Rightarrow> None
            | c # cs \<Rightarrow> if digits \<noteq> [] \<and> c = CHR '')'' then Some digits else None)
      else None)"

fun search_width :: "string \<Rightarrow> string option" where
  "search_width [] = None"
| "search_width (c # cs) =
     (case match_width (c # cs) of Some digits \<Rightarrow> Some digits | None \<Rightarrow> search_width cs)"

definition column_of_row :: "catalog_row \<Rightarrow> ColumnInfo" where
  "column_of_row row =
     (let column_type = lower (COLUMN_TYPE row);
          length =
            (if contains ''tinyint'' column_type
             then (case search_width column_type of
                     Some digits \<Rightarrow> Some (int_of_digits digits)
                   | None \<Rightarrow> None)
             else CHARACTER_MAXIMUM_LENGTH row)
      in \<lparr>name = COLUMN_NAME row,
          data_type = DATA_TYPE row,
          is_nullable = (IS_NULLABLE row = ''YES''),
          is_primary_key = (COLUMN_KEY row = ''PRI''),
          is_auto_increment = contains ''auto_increment'' (EXTRA row),
          max_length = length,
          numeric_precision = NUMERIC_PRECISION row,
          numeric_scale = NUMERIC_SCALE row\<rparr>)"

definition get_columns :: "catalog_row list \<Rightarrow> ColumnInfo list" where
  "get_columns rows = map column_of_row rows"

section \<open>Orchestrator\<close>

text \<open>
  The database is a collaborator: it refuses the connection or accepts it, and answers
  each query with an error message or with rows. The generator's effects on the outside
  are recorded as events, in the order they happen; console output is left out, and
  writing a file is taken to succeed.
\<close>

record database =
  connect_failure :: "string option"
  table_names :: "string + string list"
  column_rows :: "string \<Rightarrow> string + catalog_row list"
  show_create_table :: "string \<Rightarrow> string + string"

record generator =
  config :: config
  output_dir :: string
  attribute_config :: AttributeConfig
  verbose :: bool
  generate_sql :: bool
  sql_output_file :: string

datatype event =
    WriteDefaultConfig string
  | MakeDirs string
  | Connect string string string string
  | WriteFile string string string
  | CloseConnection

definition query :: "string + 'a \<Rightarrow> error + 'a" where
  "query answer = (case answer of Inl message \<Rightarrow> Inl (DatabaseError message) | Inr x \<Rightarrow> Inr x)"

text \<open>
  \<^verbatim>\<open>os.makedirs(path, exist_ok=True)\<close>: the empty path is always refused; for any other
  path the file system, the parameter \<open>fs\<close>, refuses with a message or accepts.
\<close>

definition makedirs :: "(string \<Rightarrow> string option) \<Rightarrow> string \<Rightarrow> error option" where
  "makedirs fs path =
     (if path = [] then Some (OSError ''No such file or directory'')
      else map_option OSError (fs path))"

text \<open>\<^verbatim>\<open>EntityGenerator.__init__\<close>, up to the creation of the output directory.\<close>

definition init :: "string \<Rightarrow> config option \<Rightarrow> error + generator" where
  "init config_file file =
     bind (load_configuration config_file file) (\<lambda>cfg.
     bind (lookup cfg ''Generator'' ''output_directory'') (\<lambda>dir.
     bind (load_attribute_config cfg) (\<lambda>ac.
     case cfg ''Generator'' of
       None \<Rightarrow> Inl (KeyError ''Generator'')
     | Some gen \<Rightarrow>
         bind (getboolean gen ''verbose'' True) (\<lambda>v.
         bind (getboolean gen ''generate_sql'' False) (\<lambda>sql.
         bind (get_option gen ''sql_output_file'' ''database_structure.sql'') (\<lambda>sql_file.
         Inr \<lparr>config = cfg, output_dir = dir, attribute_config = ac, verbose = v,
              generate_sql = sql, sql_output_file = sql_file\<rparr>))))))"

definition generate_class :: "generator \<Rightarrow> string \<Rightarrow> ColumnInfo list \<Rightarrow> error + string" where
  "generate_class gen table_name columns =
     bind (lookup (config gen) ''Generator'' ''namespace'') (\<lambda>namespace.
     Inr (join newline (class_lines (attribute_config gen) namespace table_name columns)))"

fun table_scripts :: "database \<Rightarrow> string list \<Rightarrow> error + string list" where
  "table_scripts db [] = Inr []"
| "table_scripts db (table # tables) =
     bind (query (show_create_table db table)) (\<lambda>create_table_sql.
     bind (table_scripts db tables) (\<lambda>rest.
     Inr ([''-- Table structure for table '' @ [CHR 0x60] @ table @ [CHR 0x60],
           ''DROP TABLE IF EXISTS '' @ [CHR 0x60] @ table @ [CHR 0x60] @ '';'',
           create_table_sql @ '';'',
           []] @ rest)))"

text \<open>\<^verbatim>\<open>generate_sql_script\<close>; the formatted current time is the parameter \<open>now\<close>.\<close>

definition generate_sql_script :: "generator \<Rightarrow> database \<Rightarrow> string \<Rightarrow> error + string" where
  "generate_sql_script gen db now =
     bind (query (table_names db)) (\<lambda>tables.
     bind (lookup (config gen) ''Database'' ''database'') (\<lambda>database_name.
     bind (table_scripts db tables) (\<lambda>parts.
     Inr (join newline
            ([''-- Database structure script'',
              ''-- Generated on '' @ now,
              ''-- Database: '' @ database_name,
              [],
              ''SET FOREIGN_KEY_CHECKS=0;'',
              ''SET SQL_MODE = '' @ [CHR 0x27] @ ''NO_AUTO_VALUE_ON_ZERO'' @ [CHR 0x27] @ '';'',
              ''SET NAMES utf8mb4;'',
              []]
             @ parts
             @ [''SET FOREIGN_KEY_CHECKS=1;''])))))"

text \<open>The loop over the tables: fetch the columns, render the class, write the file.\<close>

fun process_tables :: "generator \<Rightarrow> database \<Rightarrow> string list \<Rightarrow> event list \<times> error option" where
  "process_tables gen db [] = ([], None)"
| "process_tables gen db (table # tables) =
     (case query (column_rows db table) of
        Inl e \<Rightarrow> ([], Some e)
      | Inr rows \<Rightarrow>
          (case generate_class gen table (get_columns rows) of
             Inl e \<Rightarrow> ([], Some e)
           | Inr class_content \<Rightarrow>
               (case process_tables gen db tables of
                  (events, outcome) \<Rightarrow>
                    (WriteFile (output_dir gen) (to_pascal_case table @ ''.cs'') class_content
                       # events,
                     outcome))))"

text \<open>What \<^verbatim>\<open>generate_entities\<close> does between opening and closing the connection.\<close>

definition connected :: "generator \<Rightarrow> database \<Rightarrow> string \<Rightarrow> event list \<times> error option" where
  "connected gen db now =
     (case query (table_names db) of
        Inl e \<Rightarrow> ([], Some e)
      | Inr tables \<Rightarrow>
          if generate_sql gen
          then (case generate_sql_script gen db now of
                  Inl e \<Rightarrow> ([], Some e)
                | Inr sql_script \<Rightarrow>
                    (case process_tables gen db tables of
                       (events, outcome) \<Rightarrow>
                         (WriteFile (output_dir gen) (sql_output_file gen) sql_script # events,
                          outcome)))
          else process_tables gen db tables)"

definition generate_entities :: "generator \<Rightarrow> database \<Rightarrow> string \<Rightarrow> event list \<times> error option" where
  "generate_entities gen db now =
     (case bind (lookup (config gen) ''Database'' ''host'') (\<lambda>h.
           bind (lookup (config gen) ''Database'' ''database'') (\<lambda>d.
           bind (lookup (config gen) ''Database'' ''user'') (\<lambda>u.
           bind (lookup (config gen) ''Database'' ''password'') (\<lambda>p.
           Inr (Connect h d u p))))) of
        Inl e \<Rightarrow> ([], Some e)
      | Inr connect \<Rightarrow>
          (case connect_failure db of
             Some message \<Rightarrow> ([connect], Some (DatabaseError message))
           | None \<Rightarrow>
               (case connected gen db now of
                  (events, outcome) \<Rightarrow> (connect # events @ [CloseConnection], outcome))))"

text \<open>
  \<^verbatim>\<open>main\<close>: the events of a run and the error it reports, if any. An absent file is
  replaced by a default one and nothing else happens. The constructor ends by creating the
  output directory; when that fails the run stops there.
\<close>

definition main ::
  "string \<Rightarrow> config option \<Rightarrow> (string \<Rightarrow> string option) \<Rightarrow> database \<Rightarrow> string
     \<Rightarrow> event list \<times> error option" where
  "main config_file file fs db now =
     (case file of
        None \<Rightarrow> ([WriteDefaultConfig config_file], None)
      | Some cfg \<Rightarrow>
          (case init config_file file of
             Inl e \<Rightarrow> ([], Some e)
           | Inr gen \<Rightarrow>
               (case makedirs fs (output_dir gen) of
                  Some e \<Rightarrow> ([], Some e)
                | None \<Rightarrow>
                    (case generate_entities gen db now of
                       (events, outcome) \<Rightarrow> (MakeDirs (output_dir gen) # events, outcome)))))"



section \<open>Notions used by the properties\<close>

definition all_on :: "AttributeConfig" where
  "all_on = \<lparr>use_key = True, use_required = True, use_column = True, use_maxlength = True,
             use_table = True, use_database_generated = True\<rparr>"

definition all_off :: "AttributeConfig" where
  "all_off = \<lparr>use_key = False, use_required = False, use_column = False,
              use_maxlength = False, use_table = False, use_database_generated = False\<rparr>"

text \<open>
  The mapped type of a column before the nullable decoration: what the type mapper
  returns for the same column when it is not nullable.
\<close>

definition scalar_type :: "ColumnInfo \<Rightarrow> string" where
  "scalar_type column = get_csharp_type (column\<lparr>is_nullable := False\<rparr>)"

text \<open>A rendered line is a property declaration when it starts as \<^const>\<open>property_line\<close> does.\<close>

definition is_property_line :: "string \<Rightarrow> bool" where
  "is_property_line l = prefix ''        public '' l"

text \<open>
  Every line a column can contribute, in the order key marker, database-generated marker,
  column-name binding, required marker, max-length constraint, property declaration and
  the blank line that closes the property.
\<close>

definition ordered_lines :: "ColumnInfo \<Rightarrow> string list" where
  "ordered_lines column =
     [key_line, database_generated_line, column_line column, required_line]
     @ (case max_length column of None \<Rightarrow> [] | Some n \<Rightarrow> [maxlength_line n])
     @ [property_line column, []]"

text \<open>A configuration lacks an option when its section is missing or does not hold it.\<close>

definition lacks_option :: "config \<Rightarrow> string \<Rightarrow> string \<Rightarrow> bool" where
  "lacks_option cfg sec option =
     (case cfg sec of None \<Rightarrow> True | Some s \<Rightarrow> s option = None)"




definition required_options :: "(string \<times> string) list" where
  "required_options =
     map (Pair ''Database'') required_db_params @ map (Pair ''Generator'') required_gen_params"

section \<open>Characters and casing\<close>

lemma of_char_lower_char:
  "(of_char (lower_char c) :: nat) = (if is_upper c then of_char c + 32 else of_char c)"
  by (simp add: lower_char_def is_upper_def)

lemma of_char_upper_char:
  "(of_char (upper_char c) :: nat) = (if is_lower c then of_char c - 32 else of_char c)"
  by (auto simp add: upper_char_def is_lower_def)

lemma char_eq_iff: "(c = d) = ((of_char c :: nat) = of_char d)"
  by (metis char_of_char)

lemma lower_char_idem: "lower_char (lower_char c) = lower_char c"
  by (auto simp add: char_eq_iff of_char_lower_char is_upper_def)

lemma upper_char_idem: "upper_char (upper_char c) = upper_char c"
  by (auto simp add: char_eq_iff of_char_upper_char is_lower_def)

lemma is_cased_lower_char: "is_cased (lower_char c) = is_cased c"
  by (auto simp add: is_cased_def is_upper_def is_lower_def of_char_lower_char)

lemma is_cased_upper_char: "is_cased (upper_char c) = is_cased c"
  by (auto simp add: is_cased_def is_upper_def is_lower_def of_char_upper_char)

lemma title_from_idem: "title_from p (title_from p s) = title_from p s"
  by (induction s arbitrary: p)
     (simp_all add: lower_char_idem upper_char_idem is_cased_lower_char is_cased_upper_char)

lemma split_no_sep: "sep \<notin> set s \<Longrightarrow> split sep s = [s]"
  by (induction s) auto

lemma lower_char_underscore: "(lower_char c = CHR ''_'') = (c = CHR ''_'')"
  by (auto simp add: char_eq_iff of_char_lower_char is_upper_def)

lemma upper_char_underscore: "(upper_char c = CHR ''_'') = (c = CHR ''_'')"
  by (auto simp add: char_eq_iff of_char_upper_char is_lower_def)

lemma title_from_no_underscore:
  "CHR ''_'' \<notin> set s \<Longrightarrow> CHR ''_'' \<notin> set (title_from p s)"
  by (induction s arbitrary: p)
     (auto simp add: lower_char_underscore upper_char_underscore
        eq_commute [of "CHR 0x5F" "lower_char c" for c]
        eq_commute [of "CHR 0x5F" "upper_char c" for c])

lemma split_parts_no_sep: "w \<in> set (split sep s) \<Longrightarrow> sep \<notin> set w"
  by (induction s arbitrary: w) (auto split: if_splits list.splits)

lemma to_pascal_case_no_underscore: "CHR ''_'' \<notin> set (to_pascal_case s)"
  by (auto simp add: to_pascal_case_def title_def
        dest: split_parts_no_sep title_from_no_underscore)

lemma to_pascal_case_title: "CHR ''_'' \<notin> set s \<Longrightarrow> to_pascal_case s = title s"
  by (simp add: to_pascal_case_def split_no_sep)

lemma title_idem: "title (title s) = title s"
  by (simp add: title_def title_from_idem)

section \<open>Type mapper\<close>

text \<open>
  C1, as the code has it. A column whose lowercased native type is \<^verbatim>\<open>tinyint\<close> and whose
  \<^verbatim>\<open>max_length\<close> is exactly 1 maps to \<^verbatim>\<open>bool\<close>, or to \<^verbatim>\<open>bool?\<close> when it is nullable,
  although the mapping table sends \<^verbatim>\<open>tinyint\<close> to \<^verbatim>\<open>byte\<close>. Every other column, of
  whatever native type and \<^verbatim>\<open>max_length\<close>, is mapped through the table, with \<^verbatim>\<open>object\<close>
  for an unknown type and the nullable decoration on top.
\<close>

theorem tinyint_width_one_is_bool:
  "(lower (data_type column) = ''tinyint'' \<and> max_length column = Some 1
      \<longrightarrow> get_csharp_type column = (if is_nullable column then ''bool?'' else ''bool'')
          \<and> type_mapping (lower (data_type column)) = Some ''byte'')
   \<and> (\<not> (lower (data_type column) = ''tinyint'' \<and> max_length column = Some 1)
      \<longrightarrow> get_csharp_type column
          = (let cs_type = (case type_mapping (lower (data_type column)) of
                              Some t \<Rightarrow> t | None \<Rightarrow> ''object'')
             in if is_nullable column \<and> cs_type \<noteq> ''string'' then cs_type @ ''?''
                else cs_type))"
  by (simp add: get_csharp_type_def type_mapping_def)

theorem tinyint_width_one_is_bool_witness:
  "lower (data_type \<lparr>name = ''is_paid'', data_type = ''TinyInt'', is_nullable = True,
      is_primary_key = False, is_auto_increment = False, max_length = Some 1,
      numeric_precision = Some 3, numeric_scale = Some 0\<rparr>) = ''tinyint''
   \<and> get_csharp_type \<lparr>name = ''is_paid'', data_type = ''TinyInt'', is_nullable = True,
      is_primary_key = False, is_auto_increment = False, max_length = Some 1,
      numeric_precision = Some 3, numeric_scale = Some 0\<rparr> = ''bool?''
   \<and> lower (data_type \<lparr>name = ''flag'', data_type = ''int'', is_nullable = False,
      is_primary_key = False, is_auto_increment = False, max_length = Some 1,
      numeric_precision = Some 10, numeric_scale = Some 0\<rparr>) \<noteq> ''tinyint''
   \<and> get_csharp_type \<lparr>name = ''flag'', data_type = ''int'', is_nullable = False,
      is_primary_key = False, is_auto_increment = False, max_length = Some 1,
      numeric_precision = Some 10, numeric_scale = Some 0\<rparr> = ''int''"
proof -
  have a: "lower (data_type \<lparr>name = ''is_paid'', data_type = ''TinyInt'', is_nullable = True,
      is_primary_key = False, is_auto_increment = False, max_length = Some 1,
      numeric_precision = Some 3, numeric_scale = Some 0\<rparr>) = ''tinyint''"
    by code_simp
  have b: "lower (data_type \<lparr>name = ''flag'', data_type = ''int'', is_nullable = False,
      is_primary_key = False, is_auto_increment = False, max_length = Some 1,
      numeric_precision = Some 10, numeric_scale = Some 0\<rparr>) = ''int''"
    by code_simp
  have t: "type_mapping ''int'' = Some ''int''"
    by (simp add: type_mapping_def)
  show ?thesis
    using a b t
      tinyint_width_one_is_bool [of "\<lparr>name = ''is_paid'', data_type = ''TinyInt'',
        is_nullable = True, is_primary_key = False, is_auto_increment = False,
        max_length = Some 1, numeric_precision = Some 3, numeric_scale = Some 0\<rparr>"]
      tinyint_width_one_is_bool [of "\<lparr>name = ''flag'', data_type = ''int'',
        is_nullable = False, is_primary_key = False, is_auto_increment = False,
        max_length = Some 1, numeric_precision = Some 10, numeric_scale = Some 0\<rparr>"]
    by simp
qed

text \<open>
  C1 as stated fails: a \<^verbatim>\<open>smallint\<close> column of display width 1 is mapped through the
  table, to \<^verbatim>\<open>short\<close>.
\<close>

theorem smallint_width_one_counterexample:
  "get_csharp_type \<lparr>name = ''flag'', data_type = ''smallint'', is_nullable = False,
      is_primary_key = False, is_auto_increment = False, max_length = Some 1,
      numeric_precision = Some 5, numeric_scale = Some 0\<rparr> = ''short''"
  by code_simp

text \<open>
  C3. A nullable column whose mapped type is not \<^verbatim>\<open>string\<close> gets the mapped type followed
  by \<^verbatim>\<open>?\<close>; a column whose mapped type is \<^verbatim>\<open>string\<close> gets \<^verbatim>\<open>string\<close>, nullable or not.
\<close>

theorem nullable_decoration:
  "(is_nullable column \<and> scalar_type column \<noteq> ''string''
      \<longrightarrow> get_csharp_type column = scalar_type column @ ''?'')
   \<and> (scalar_type column = ''string'' \<longrightarrow> get_csharp_type column = ''string'')"
  by (auto simp add: scalar_type_def get_csharp_type_def Let_def)

theorem nullable_decoration_witness:
  "is_nullable \<lparr>name = ''total'', data_type = ''decimal'', is_nullable = True,
      is_primary_key = False, is_auto_increment = False, max_length = None,
      numeric_precision = Some 10, numeric_scale = Some 2\<rparr>
   \<and> scalar_type \<lparr>name = ''total'', data_type = ''decimal'', is_nullable = True,
      is_primary_key = False, is_auto_increment = False, max_length = None,
      numeric_precision = Some 10, numeric_scale = Some 2\<rparr> \<noteq> ''string''
   \<and> get_csharp_type \<lparr>name = ''total'', data_type = ''decimal'', is_nullable = True,
      is_primary_key = False, is_auto_increment = False, max_length = None,
      numeric_precision = Some 10, numeric_scale = Some 2\<rparr> = ''decimal?''
   \<and> scalar_type \<lparr>name = ''note'', data_type = ''varchar'', is_nullable = True,
      is_primary_key = False, is_auto_increment = False, max_length = Some 255,
      numeric_precision = None, numeric_scale = None\<rparr> = ''string''
   \<and> get_csharp_type \<lparr>name = ''note'', data_type = ''varchar'', is_nullable = True,
      is_primary_key = False, is_auto_increment = False, max_length = Some 255,
      numeric_precision = None, numeric_scale = None\<rparr> = ''string''"
proof -
  have a: "scalar_type \<lparr>name = ''total'', data_type = ''decimal'', is_nullable = True,
      is_primary_key = False, is_auto_increment = False, max_length = None,
      numeric_precision = Some 10, numeric_scale = Some 2\<rparr> = ''decimal''"
    by code_simp
  have b: "scalar_type \<lparr>name = ''note'', data_type = ''varchar'', is_nullable = True,
      is_primary_key = False, is_auto_increment = False, max_length = Some 255,
      numeric_precision = None, numeric_scale = None\<rparr> = ''string''"
    by code_simp
  show ?thesis
    using a b
      nullable_decoration [of "\<lparr>name = ''total'', data_type = ''decimal'', is_nullable = True,
        is_primary_key = False, is_auto_increment = False, max_length = None,
        numeric_precision = Some 10, numeric_scale = Some 2\<rparr>"]
      nullable_decoration [of "\<lparr>name = ''note'', data_type = ''varchar'', is_nullable = True,
        is_primary_key = False, is_auto_increment = False, max_length = Some 255,
        numeric_precision = None, numeric_scale = None\<rparr>"]
    by simp
qed

section \<open>Casing transform\<close>

text \<open>
  C5, as the code has it. On an ASCII string without underscore the transform is
  \<^verbatim>\<open>str.title\<close>, and applying it twice gives the same as applying it once.
\<close>

theorem to_pascal_case_twice:
  assumes "CHR ''_'' \<notin> set s" and "list_all is_ascii s"
  shows "to_pascal_case (to_pascal_case s) = to_pascal_case s"
proof -
  have "to_pascal_case s = title s"
    using assms(1) by (rule to_pascal_case_title)
  moreover have "to_pascal_case (title s) = title (title s)"
    using to_pascal_case_no_underscore [of s] \<open>to_pascal_case s = title s\<close>
    by (simp add: to_pascal_case_title)
  ultimately show ?thesis
    by (simp add: title_idem)
qed

theorem to_pascal_case_twice_witness:
  "CHR ''_'' \<notin> set ''orderITEM2x'' \<and> list_all is_ascii ''orderITEM2x''
   \<and> to_pascal_case ''orderITEM2x'' = ''Orderitem2X''
   \<and> to_pascal_case (to_pascal_case ''orderITEM2x'') = ''Orderitem2X''"
proof -
  have u: "CHR ''_'' \<notin> set ''orderITEM2x''" by simp
  have a: "list_all is_ascii ''orderITEM2x''" by code_simp
  have v: "to_pascal_case ''orderITEM2x'' = ''Orderitem2X''" by code_simp
  show ?thesis
    using u a v to_pascal_case_twice [OF u a] by simp
qed

text \<open>
  C5 as stated fails: the transform of \<^verbatim>\<open>user_id\<close> is \<^verbatim>\<open>UserId\<close>, and the transform of
  \<^verbatim>\<open>UserId\<close> is \<^verbatim>\<open>Userid\<close>.
\<close>

theorem to_pascal_case_counterexample:
  "to_pascal_case ''user_id'' = ''UserId''
   \<and> to_pascal_case (to_pascal_case ''user_id'') = ''Userid''"
  by code_simp

section \<open>Attribute configuration\<close>

lemma getboolean_absent: "sec (lower option) = None \<Longrightarrow> getboolean sec option fallback = Inr fallback"
  by (simp add: getboolean_def)

lemma load_attribute_config_empty_section:
  "load_attribute_config [''Attributes'' \<mapsto> Map.empty] = Inr all_on"
  by (simp add: load_attribute_config_def getboolean_def bind_def all_on_def)

lemma load_attribute_config_no_section:
  "cfg ''Attributes'' = None \<Longrightarrow> load_attribute_config cfg = Inl (AttributeError ''getboolean'')"
  by (simp add: load_attribute_config_def)

text \<open>
  C4. A configuration with complete \<^verbatim>\<open>Database\<close> and \<^verbatim>\<open>Generator\<close> sections and no
  \<^verbatim>\<open>Attributes\<close> section passes validation, and loading the attribute configuration then
  raises \<^verbatim>\<open>AttributeError\<close> instead of returning six enabled toggles.
\<close>

theorem attributes_section_absent_fails:
  "load_configuration ''database_config.ini''
     (Some [''Database'' \<mapsto> [''host'' \<mapsto> ''localhost'', ''database'' \<mapsto> ''shop'',
                               ''user'' \<mapsto> ''root'', ''password'' \<mapsto> ''secret''],
            ''Generator'' \<mapsto> [''output_directory'' \<mapsto> ''out'', ''namespace'' \<mapsto> ''Shop'']])
     = Inr [''Database'' \<mapsto> [''host'' \<mapsto> ''localhost'', ''database'' \<mapsto> ''shop'',
                               ''user'' \<mapsto> ''root'', ''password'' \<mapsto> ''secret''],
            ''Generator'' \<mapsto> [''output_directory'' \<mapsto> ''out'', ''namespace'' \<mapsto> ''Shop'']]
   \<and> load_attribute_config
       [''Database'' \<mapsto> [''host'' \<mapsto> ''localhost'', ''database'' \<mapsto> ''shop'',
                          ''user'' \<mapsto> ''root'', ''password'' \<mapsto> ''secret''],
        ''Generator'' \<mapsto> [''output_directory'' \<mapsto> ''out'', ''namespace'' \<mapsto> ''Shop'']]
     = Inl (AttributeError ''getboolean'')"
  by (simp add: load_configuration_def load_attribute_config_def missing_param_def bind_def
        required_sections_def required_db_params_def required_gen_params_def
        lower_def lower_char_def is_upper_def)

section \<open>Entity renderer\<close>

text \<open>
  C2. A non-nullable \<^verbatim>\<open>varchar\<close> column is mapped to \<^verbatim>\<open>string\<close>, and with the required
  toggle active the renderer still emits the required marker for it: the renderer compares
  the native type name with \<^verbatim>\<open>string\<close>, not the mapped type.
\<close>

theorem required_marker_on_string_column:
  "get_csharp_type \<lparr>name = ''title'', data_type = ''varchar'', is_nullable = False,
      is_primary_key = False, is_auto_increment = False, max_length = Some 80,
      numeric_precision = None, numeric_scale = None\<rparr> = ''string''
   \<and> attributes all_on \<lparr>name = ''title'', data_type = ''varchar'', is_nullable = False,
      is_primary_key = False, is_auto_increment = False, max_length = Some 80,
      numeric_precision = None, numeric_scale = None\<rparr>
     = [''        [Column('' @ dq @ ''title'' @ dq @ '')]'',
        ''        [Required]'',
        ''        [MaxLength(80)]'']"
  by code_simp

lemma property_line_is_property: "is_property_line (property_line column)"
  by (simp add: is_property_line_def property_line_def)

lemma attributes_not_property: "l \<in> set (attributes ac column) \<Longrightarrow> \<not> is_property_line l"
  by (auto simp add: attributes_def is_property_line_def key_line_def
        database_generated_line_def column_line_def required_line_def maxlength_line_def
        split: if_splits option.splits)

lemma filter_attributes: "filter is_property_line (attributes ac column) = []"
  by (simp add: filter_empty_conv attributes_not_property)

lemma filter_column_lines:
  "filter is_property_line (column_lines ac column) = [property_line column]"
  by (simp add: column_lines_def filter_attributes property_line_is_property)
     (simp add: is_property_line_def)

lemma filter_columns:
  "filter is_property_line (concat (map (column_lines ac) columns)) = map property_line columns"
  by (induction columns) (simp_all add: filter_column_lines)

lemma using_statements_all_off: "using_statements all_off = [''using System;'']"
  by (simp add: using_statements_def all_off_def)

lemma attributes_all_off: "attributes all_off column = []"
  by (simp add: attributes_def all_off_def split: option.splits)

lemma using_statement_not_property:
  "l \<in> set (using_statements ac) \<Longrightarrow> \<not> is_property_line l"
proof -
  assume "l \<in> set (using_statements ac)"
  then have "l \<in> {''using System;'', ''using System.ComponentModel.DataAnnotations;'',
                   ''using System.ComponentModel.DataAnnotations.Schema;''}"
    unfolding using_statements_def set_sort by (simp split: if_splits) blast
  then have "hd l = CHR ''u''"
    by auto
  then show "\<not> is_property_line l"
    by (cases l) (simp_all add: is_property_line_def)
qed

lemma filter_using_statements: "filter is_property_line (using_statements ac) = []"
  by (simp add: filter_empty_conv using_statement_not_property)

lemma filter_class_lines:
  "filter is_property_line (class_lines ac namespace table_name columns)
     = map property_line columns"
  by (simp add: class_lines_def filter_using_statements filter_columns)
     (simp add: is_property_line_def)

text \<open>
  C6, as the code has it. With the six toggles disabled the class consists of the base
  import \<^verbatim>\<open>using System;\<close>, the namespace and class wrappers and, per column, the property
  declaration followed by a blank line: no attribute line and no table attribute. The
  property declarations are those of any other toggle configuration.
\<close>

theorem all_toggles_off_plain_properties:
  "class_lines all_off namespace table_name columns
     = [''using System;'', [], ''namespace '' @ namespace, ''{'',
        ''    public class '' @ to_pascal_case table_name, ''    {'']
       @ concat (map (\<lambda>column. [property_line column, []]) columns)
       @ [''    }'', ''}'']
   \<and> filter is_property_line (class_lines all_off namespace table_name columns)
     = filter is_property_line (class_lines ac namespace table_name columns)"
proof (rule conjI)
  have "column_lines all_off = (\<lambda>column. [property_line column, []])"
    by (simp add: fun_eq_iff column_lines_def attributes_all_off)
  then show "class_lines all_off namespace table_name columns
     = [''using System;'', [], ''namespace '' @ namespace, ''{'',
        ''    public class '' @ to_pascal_case table_name, ''    {'']
       @ concat (map (\<lambda>column. [property_line column, []]) columns)
       @ [''    }'', ''}'']"
    by (simp add: class_lines_def using_statements_all_off) (simp add: all_off_def)
next
  show "filter is_property_line (class_lines all_off namespace table_name columns)
     = filter is_property_line (class_lines ac namespace table_name columns)"
    by (simp only: filter_class_lines)
qed

text \<open>
  C8. The property declarations of the rendered class are those of the columns, one per
  column and in the order of the column list, and the schema reader turns the fetched rows
  into columns one by one, in the order the database returned them.
\<close>

theorem property_order_preserved:
  "filter is_property_line (class_lines ac namespace table_name columns)
     = map property_line columns
   \<and> get_columns rows = map column_of_row rows
   \<and> map name (get_columns rows) = map COLUMN_NAME rows"
  by (simp add: filter_class_lines get_columns_def column_of_row_def Let_def comp_def)

lemma ordered_lines_distinct: "distinct (ordered_lines column)"
  by (cases "max_length column")
     (simp_all add: ordered_lines_def key_line_def database_generated_line_def
        column_line_def required_line_def maxlength_line_def property_line_def)

lemma subseq_optional: "subseq (if b then [x] else []) [x]"
  by simp

lemma subseq_maxlength:
  "subseq
     (case m of None \<Rightarrow> [] | Some n \<Rightarrow> if P n then [maxlength_line n] else [])
     (case m of None \<Rightarrow> [] | Some n \<Rightarrow> [maxlength_line n])"
  by (cases m) simp_all

lemma attributes_subseq:
  "subseq (attributes ac column)
     ([key_line] @ [database_generated_line] @ [column_line column] @ [required_line]
      @ (case max_length column of None \<Rightarrow> [] | Some n \<Rightarrow> [maxlength_line n]))"
  unfolding attributes_def
  by (intro list_emb_append_mono subseq_optional subseq_maxlength)

lemma column_lines_subseq: "subseq (column_lines ac column) (ordered_lines column)"
proof -
  have "ordered_lines column
      = ([key_line] @ [database_generated_line] @ [column_line column] @ [required_line]
         @ (case max_length column of None \<Rightarrow> [] | Some n \<Rightarrow> [maxlength_line n]))
        @ [property_line column, []]"
    by (simp add: ordered_lines_def)
  moreover have "subseq (attributes ac column @ [property_line column, []])
      (([key_line] @ [database_generated_line] @ [column_line column] @ [required_line]
         @ (case max_length column of None \<Rightarrow> [] | Some n \<Rightarrow> [maxlength_line n]))
        @ [property_line column, []])"
    by (rule list_emb_append_mono [OF attributes_subseq subseq_order.order_refl])
  ultimately show ?thesis
    by (simp only: column_lines_def)
qed

text \<open>
  C7. Whatever the toggles, the lines of a column are a subsequence of the fixed sequence
  key marker, database-generated marker, column-name binding, required marker, max-length
  constraint, property declaration, blank line; the lines of that sequence are pairwise
  different, so no two of them ever change places, and the declaration and the blank line
  always come last.
\<close>

theorem attribute_order_fixed:
  "subseq (column_lines ac column) (ordered_lines column)
   \<and> distinct (ordered_lines column)
   \<and> suffix [property_line column, []] (column_lines ac column)"
proof -
  have "suffix [property_line column, []] (column_lines ac column)"
    unfolding column_lines_def by (rule suffixI) (rule refl)
  with column_lines_subseq ordered_lines_distinct show ?thesis
    by blast
qed

text \<open>
  C6 as stated fails: the set of using declarations is not empty with the six toggles
  disabled, the rendered class starts with \<^verbatim>\<open>using System;\<close>.
\<close>

theorem all_toggles_off_counterexample:
  "using_statements all_off = [''using System;'']
   \<and> class_lines all_off ''Shop'' ''orders'' []
     = [''using System;'', [], ''namespace Shop'', ''{'', ''    public class Orders'',
        ''    {'', ''    }'', ''}'']"
proof -
  have "to_pascal_case ''orders'' = ''Orders''"
    by code_simp
  then show ?thesis
    by (simp add: class_lines_def using_statements_all_off) (simp add: all_off_def)
qed

section \<open>Configuration loading\<close>

lemma lower_literals:
  "lower ''host'' = ''host''" "lower ''database'' = ''database''" "lower ''user'' = ''user''"
  "lower ''password'' = ''password''" "lower ''output_directory'' = ''output_directory''"
  "lower ''namespace'' = ''namespace''" "lower ''verbose'' = ''verbose''"
  "lower ''generate_sql'' = ''generate_sql''" "lower ''sql_output_file'' = ''sql_output_file''"
  "lower ''use_key_attribute'' = ''use_key_attribute''"
  "lower ''use_required_attribute'' = ''use_required_attribute''"
  "lower ''use_column_attribute'' = ''use_column_attribute''"
  "lower ''use_maxlength_attribute'' = ''use_maxlength_attribute''"
  "lower ''use_table_attribute'' = ''use_table_attribute''"
  "lower ''use_databasegenerated_attribute'' = ''use_databasegenerated_attribute''"
  by code_simp+

lemma find_missing_Some:
  "p \<in> set params \<Longrightarrow> s (lower p) = None \<Longrightarrow> \<exists>q. find (\<lambda>param. s (lower param) = None) params = Some q"
  by (cases "find (\<lambda>param. s (lower param) = None) params") (auto simp add: find_None_iff)

lemma load_configuration_section_missing:
  assumes "cfg ''Database'' = None \<or> cfg ''Generator'' = None"
  shows "\<exists>message. load_configuration f (Some cfg) = Inl (ConfigurationError message)"
  using assms by (auto simp add: load_configuration_def required_sections_def)

lemma load_configuration_db_param_missing:
  assumes "cfg ''Database'' = Some d" and "cfg ''Generator'' = Some g"
    and "p \<in> set required_db_params" and "d (lower p) = None"
  shows "\<exists>message. load_configuration f (Some cfg) = Inl (ConfigurationError message)"
proof -
  obtain q where "find (\<lambda>param. d (lower param) = None) required_db_params = Some q"
    using find_missing_Some [of p required_db_params d] assms(3,4) by blast
  then show ?thesis
    using assms(1,2)
    by (simp add: load_configuration_def required_sections_def missing_param_def bind_def)
qed

lemma load_configuration_gen_param_missing:
  assumes "cfg ''Database'' = Some d" and "cfg ''Generator'' = Some g"
    and "p \<in> set required_gen_params" and "g (lower p) = None"
  shows "\<exists>message. load_configuration f (Some cfg) = Inl (ConfigurationError message)"
proof -
  obtain q where q: "find (\<lambda>param. g (lower param) = None) required_gen_params = Some q"
    using find_missing_Some [of p required_gen_params g] assms(3,4) by blast
  show ?thesis
  proof (cases "find (\<lambda>param. d (lower param) = None) required_db_params")
    case None
    then show ?thesis
      using assms(1,2) q
      by (simp add: load_configuration_def required_sections_def missing_param_def bind_def)
  next
    case (Some r)
    then show ?thesis
      using assms(1,2)
      by (simp add: load_configuration_def required_sections_def missing_param_def bind_def)
  qed
qed

lemma required_param_lower:
  "p \<in> set required_db_params \<or> p \<in> set required_gen_params \<Longrightarrow> lower p = p"
  by (auto simp add: required_db_params_def required_gen_params_def lower_literals)

lemma main_load_error:
  "load_configuration f (Some cfg) = Inl e \<Longrightarrow> main f (Some cfg) fs db now = ([], Some e)"
  by (simp add: main_def init_def bind_def)

text \<open>
  C9. When a configuration file exists and its configuration lacks one of the options
  \<^verbatim>\<open>host\<close>, \<^verbatim>\<open>database\<close>, \<^verbatim>\<open>user\<close>, \<^verbatim>\<open>password\<close> of the database section or
  \<^verbatim>\<open>output_directory\<close>, \<^verbatim>\<open>namespace\<close> of the generator section, loading it raises a
  \<^verbatim>\<open>ConfigurationError\<close>, and the run reports that error without any outside effect: no
  connection is opened.
\<close>

theorem missing_required_option_is_configuration_error:
  assumes "(sec, option) \<in> set required_options" and "lacks_option cfg sec option"
  shows "\<exists>message. load_configuration f (Some cfg) = Inl (ConfigurationError message)
           \<and> main f (Some cfg) fs db now = ([], Some (ConfigurationError message))"
proof -
  have "\<exists>message. load_configuration f (Some cfg) = Inl (ConfigurationError message)"
  proof (cases "cfg ''Database'' = None \<or> cfg ''Generator'' = None")
    case True
    then show ?thesis by (rule load_configuration_section_missing)
  next
    case False
    then obtain d g where d: "cfg ''Database'' = Some d" and g: "cfg ''Generator'' = Some g"
      by auto
    from assms(1) consider
        (db) "sec = ''Database''" "option \<in> set required_db_params"
      | (gen) "sec = ''Generator''" "option \<in> set required_gen_params"
      by (auto simp add: required_options_def)
    then show ?thesis
    proof cases
      case db
      then have "d (lower option) = None"
        using assms(2) d by (simp add: lacks_option_def required_param_lower)
      with d g db(2) show ?thesis
        by (rule load_configuration_db_param_missing)
    next
      case gen
      then have "g (lower option) = None"
        using assms(2) g by (simp add: lacks_option_def required_param_lower)
      with d g gen(2) show ?thesis
        by (rule load_configuration_gen_param_missing)
    qed
  qed
  then show ?thesis
    by (auto dest: main_load_error)
qed

theorem missing_required_option_is_configuration_error_witness:
  "(''Database'', ''password'') \<in> set required_options
   \<and> lacks_option
        [''Database'' \<mapsto> [''host'' \<mapsto> ''localhost'', ''database'' \<mapsto> ''shop'', ''user'' \<mapsto> ''root''],
         ''Generator'' \<mapsto> [''output_directory'' \<mapsto> ''out'', ''namespace'' \<mapsto> ''Shop'']]
        ''Database'' ''password''
   \<and> (\<exists>message.
        load_configuration ''database_config.ini''
          (Some [''Database'' \<mapsto> [''host'' \<mapsto> ''localhost'', ''database'' \<mapsto> ''shop'',
                                    ''user'' \<mapsto> ''root''],
                 ''Generator'' \<mapsto> [''output_directory'' \<mapsto> ''out'', ''namespace'' \<mapsto> ''Shop'']])
          = Inl (ConfigurationError message)
        \<and> main ''database_config.ini''
            (Some [''Database'' \<mapsto> [''host'' \<mapsto> ''localhost'', ''database'' \<mapsto> ''shop'',
                                      ''user'' \<mapsto> ''root''],
                   ''Generator'' \<mapsto> [''output_directory'' \<mapsto> ''out'', ''namespace'' \<mapsto> ''Shop'']])
            (\<lambda>path. None)
            \<lparr>connect_failure = None, table_names = Inr [],
               column_rows = (\<lambda>table. Inr []), show_create_table = (\<lambda>table. Inr [])\<rparr>
            ''2024-01-01 00:00:00''
          = ([], Some (ConfigurationError message)))"
proof -
  have a: "(''Database'', ''password'') \<in> set required_options"
    by (simp add: required_options_def required_db_params_def)
  have b: "lacks_option
        [''Database'' \<mapsto> [''host'' \<mapsto> ''localhost'', ''database'' \<mapsto> ''shop'', ''user'' \<mapsto> ''root''],
         ''Generator'' \<mapsto> [''output_directory'' \<mapsto> ''out'', ''namespace'' \<mapsto> ''Shop'']]
        ''Database'' ''password''"
    by (simp add: lacks_option_def)
  show ?thesis
    using a b missing_required_option_is_configuration_error [OF a b]
    by blast
qed

section \<open>The language option\<close>




























end
